theory Spec2Isabelle
  imports Complex_Main "HOL-Library.Word"
begin

section \<open>Values, errors and one-row data frames\<close>

text \<open>
  The script \<^verbatim>\<open>app.py\<close> builds a pandas data frame with a single row. A cell holds
  either a Python \<^verbatim>\<open>int\<close> (unbounded) or a Python \<^verbatim>\<open>float\<close>. The feature builder
  never does arithmetic on floats, it only compares them with integer literals, and such
  a comparison is exact; a float is therefore modelled by the real number it denotes.
\<close>

datatype pyval = PyInt int | PyFloat real

datatype error = IndexError | KeyError string

text \<open>
  A one-row frame is the ordered list of its columns, each with the value of its cell.
  The frame the script builds has pairwise distinct column names; a frame selected with a
  list that repeats a name repeats the column, as pandas does.
\<close>

type_synonym frame = "(string \<times> pyval) list"

text \<open>The form fields, lines 79 to 103. \<^verbatim>\<open>gender\<close> is the string the select box returns.\<close>

record PatientProfile =
  age :: int
  gender :: string
  los :: int
  prev_adm :: int
  comorbidity_count :: int
  num_medications :: int
  diagnosis_code :: string
  avg_creatinine :: real
  avg_hemoglobin :: real
  avg_glucose :: real

text \<open>\<^verbatim>\<open>df[c] = v\<close>: an existing column keeps its place, a new one goes last.\<close>

fun set_col :: "frame \<Rightarrow> string \<Rightarrow> pyval \<Rightarrow> frame" where
  "set_col [] c v = [(c, v)]"
| "set_col ((k, x) # df) c v = (if k = c then (k, v) # df else (k, x) # set_col df c v)"

text \<open>
  Lines 128 to 130:
  \<^verbatim>\<open>for col in feature_columns: if col not in input_data.columns: input_data[col] = 0\<close>
\<close>

fun fill_missing :: "frame \<Rightarrow> string list \<Rightarrow> frame" where
  "fill_missing df [] = df"
| "fill_missing df (col # cols) =
     fill_missing (if col \<notin> set (map fst df) then set_col df col (PyInt 0) else df) cols"

text \<open>
  \<^verbatim>\<open>df[cols]\<close> with a list of names: the named columns in the order of the list;
  pandas raises \<^verbatim>\<open>KeyError\<close> for a name that is no column.
\<close>

fun select_cols :: "frame \<Rightarrow> string list \<Rightarrow> error + frame" where
  "select_cols df [] = Inr []"
| "select_cols df (c # cs) =
     (case map_of df c of
        None \<Rightarrow> Inl (KeyError c)
      | Some v \<Rightarrow> (case select_cols df cs of Inl e \<Rightarrow> Inl e | Inr r \<Rightarrow> Inr ((c, v) # r)))"

section \<open>Feature builder\<close>

text \<open>
  Strings are lists over the 8-bit type \<^typ>\<open>char\<close>. The characters below 128 are the
  ASCII characters; the others stand for characters beyond ASCII.

  \<^verbatim>\<open>str.upper\<close> works character by character. On an ASCII character it is fixed: the
  letters a to z go to A to Z and every other ASCII character stays.
\<close>

definition ascii_upper_char :: "char \<Rightarrow> char" where
  "ascii_upper_char c =
     (case map_of (zip ''abcdefghijklmnopqrstuvwxyz'' ''ABCDEFGHIJKLMNOPQRSTUVWXYZ'') c of
        Some u \<Rightarrow> u
      | None \<Rightarrow> c)"


text \<open>
  On a character beyond ASCII \<^verbatim>\<open>str.upper\<close> follows the Unicode tables of the Python
  runtime, which are outside the repository: they are the parameter \<open>unicode_upper\<close>, from
  a character to the string that replaces it. The replacement may be another character
  or several characters (the sharp s becomes \<^verbatim>\<open>SS\<close>).
\<close>

definition str_upper :: "(char \<Rightarrow> string) \<Rightarrow> string \<Rightarrow> string" where
  "str_upper unicode_upper s =
     concat (map (\<lambda>c. if (of_char c :: nat) < 128 then [ascii_upper_char c]
                       else unicode_upper c) s)"

text \<open>
  Line 108, \<^verbatim>\<open>icd_group = diagnosis_code[0].upper()\<close>: indexing the empty string raises
  \<^verbatim>\<open>IndexError\<close>.
\<close>

definition icd_group_of :: "(char \<Rightarrow> string) \<Rightarrow> string \<Rightarrow> error + string" where
  "icd_group_of unicode_upper code =
     (case code of [] \<Rightarrow> Inl IndexError | c # _ \<Rightarrow> Inr (str_upper unicode_upper [c]))"

text \<open>Lines 110 to 126: the frame of the direct fields, then the five derived columns.\<close>

definition engineered :: "PatientProfile \<Rightarrow> frame" where
  "engineered p =
     (let input_data =
            [(''age'', PyInt (age p)),
             (''length_of_stay'', PyInt (los p)),
             (''previous_admissions'', PyInt (prev_adm p)),
             (''comorbidity_count'', PyInt (comorbidity_count p)),
             (''avg_creatinine'', PyFloat (avg_creatinine p)),
             (''avg_hemoglobin'', PyFloat (avg_hemoglobin p)),
             (''avg_glucose'', PyFloat (avg_glucose p)),
             (''num_medications'', PyInt (num_medications p)),
             (''gender_M'', PyInt (if gender p = ''Male'' then 1 else 0))];
          input_data = set_col input_data ''los_x_comorb'' (PyInt (los p * comorbidity_count p));
          input_data = set_col input_data ''glucose_flag'' (PyInt (of_bool (avg_glucose p > 200)));
          input_data = set_col input_data ''creatinine_flag'' (PyInt (of_bool (avg_creatinine p > 2)));
          input_data = set_col input_data ''hb_flag'' (PyInt (of_bool (avg_hemoglobin p < 10)));
          input_data = set_col input_data ''polypharmacy_flag'' (PyInt (of_bool (num_medications p \<ge> 15)))
      in input_data)"

text \<open>
  Lines 108 to 135. The result is the frame handed to the scoring oracle, or the exception
  that ends the run of the script.
\<close>

definition feature_prep ::
    "(char \<Rightarrow> string) \<Rightarrow> PatientProfile \<Rightarrow> string list \<Rightarrow> error + frame" where
  "feature_prep unicode_upper p feature_columns =
     (case icd_group_of unicode_upper (diagnosis_code p) of
        Inl e \<Rightarrow> Inl e
      | Inr icd_group \<Rightarrow>
          (let input_data = engineered p;
               input_data = fill_missing input_data feature_columns;
               input_data = (if icd_group \<in> set feature_columns
                             then set_col input_data icd_group (PyInt 1) else input_data)
           in select_cols input_data feature_columns))"

text \<open>The columns that lines 110 to 126 produce whatever the schema is.\<close>

definition explicit_columns :: "string list" where
  "explicit_columns =
     [''age'', ''length_of_stay'', ''previous_admissions'', ''comorbidity_count'',
      ''avg_creatinine'', ''avg_hemoglobin'', ''avg_glucose'', ''num_medications'',
      ''gender_M'', ''los_x_comorb'', ''glucose_flag'', ''creatinine_flag'', ''hb_flag'',
      ''polypharmacy_flag'']"

text \<open>
  The scenario of the specification's end-to-end example (the form's default values). The
  creatinine is the float the literal \<^verbatim>\<open>1.2\<close> denotes; \<^verbatim>\<open>12.0\<close> and \<^verbatim>\<open>110.0\<close>
  denote 12 and 110.
\<close>

definition scenario_profile :: PatientProfile where
  "scenario_profile =
     \<lparr>age = 65, gender = ''Male'', los = 7, prev_adm = 2, comorbidity_count = 2,
      num_medications = 10, diagnosis_code = ''I50.9'',
      avg_creatinine = 5404319552844595 / 4503599627370496,
      avg_hemoglobin = 12, avg_glucose = 110\<rparr>"

section \<open>Risk classifier\<close>

text \<open>
  Lines 145 to 153 compare the probability, a Python float, with the float literals
  \<^verbatim>\<open>0.50\<close> and \<^verbatim>\<open>0.30\<close>. A float is modelled by the real number it denotes and the
  comparison of two floats is the comparison of these numbers. The literal \<^verbatim>\<open>0.50\<close>
  denotes one half. The literal \<^verbatim>\<open>0.30\<close> denotes the double nearest to three tenths,
  which is \<open>5404319552844595 / 2^54\<close> and lies just below three tenths; the probability
  written \<^verbatim>\<open>0.3\<close> in Python is this same double.
\<close>

definition float_0_50 :: real where
  "float_0_50 = 1 / 2"

definition float_0_30 :: real where
  "float_0_30 = 5404319552844595 / 18014398509481984"

text \<open>The level and its display colour, as the pair the branches assign.\<close>

definition classify :: "real \<Rightarrow> string \<times> string" where
  "classify prob =
     (if prob \<ge> float_0_50 then (''HIGH'', ''#d62828'')
      else if prob \<ge> float_0_30 then (''MODERATE'', ''#f77f00'')
      else (''LOW'', ''#2a9d8f''))"

section \<open>Report identifier\<close>













section \<open>Frames: basic facts\<close>

lemma map_of_set_col: "map_of (set_col df c v) = (map_of df)(c \<mapsto> v)"
  by (induction df c v rule: set_col.induct) auto

lemma map_of_fill_missing:
  "map_of (fill_missing df cols) k =
     (case map_of df k of
        Some v \<Rightarrow> Some v
      | None \<Rightarrow> if k \<in> set cols then Some (PyInt 0) else None)"
proof (induction cols arbitrary: df)
  case Nil
  then show ?case by (simp split: option.splits)
next
  case (Cons col cols)
  show ?case
  proof (cases "col \<in> set (map fst df)")
    case True
    then have "map_of df col \<noteq> None"
      by (simp add: map_of_eq_None_iff)
    then obtain y where y: "map_of df col = Some y"
      by blast
    from True have "fill_missing df (col # cols) = fill_missing df cols"
      by simp
    with Cons [of df] y show ?thesis
      by (cases "k = col") (simp_all split: option.splits)
  next
    case False
    then have "map_of df col = None"
      by (simp add: map_of_eq_None_iff)
    with False Cons show ?thesis
      by (auto simp: map_of_set_col split: option.splits)
  qed
qed

lemma select_cols_defined:
  "(\<And>k. k \<in> set cols \<Longrightarrow> map_of df k \<noteq> None) \<Longrightarrow>
   select_cols df cols = Inr (map (\<lambda>k. (k, the (map_of df k))) cols)"
proof (induction cols)
  case Nil
  then show ?case by simp
next
  case (Cons c cs)
  from Cons.prems obtain v where v: "map_of df c = Some v"
    by fastforce
  from Cons have "select_cols df cs = Inr (map (\<lambda>k. (k, the (map_of df k))) cs)"
    by simp
  with v show ?case by simp
qed

section \<open>Feature builder: the vector in closed form\<close>

lemma engineered_list:
  "engineered p =
     [(''age'', PyInt (age p)),
      (''length_of_stay'', PyInt (los p)),
      (''previous_admissions'', PyInt (prev_adm p)),
      (''comorbidity_count'', PyInt (comorbidity_count p)),
      (''avg_creatinine'', PyFloat (avg_creatinine p)),
      (''avg_hemoglobin'', PyFloat (avg_hemoglobin p)),
      (''avg_glucose'', PyFloat (avg_glucose p)),
      (''num_medications'', PyInt (num_medications p)),
      (''gender_M'', PyInt (if gender p = ''Male'' then 1 else 0)),
      (''los_x_comorb'', PyInt (los p * comorbidity_count p)),
      (''glucose_flag'', PyInt (of_bool (avg_glucose p > 200))),
      (''creatinine_flag'', PyInt (of_bool (avg_creatinine p > 2))),
      (''hb_flag'', PyInt (of_bool (avg_hemoglobin p < 10))),
      (''polypharmacy_flag'', PyInt (of_bool (num_medications p \<ge> 15)))]"
  by (simp add: engineered_def)

lemma columns_engineered: "map fst (engineered p) = explicit_columns"
  by (simp add: engineered_list explicit_columns_def)

lemma engineered_None_iff: "map_of (engineered p) k = None \<longleftrightarrow> k \<notin> set explicit_columns"
proof -
  have "set explicit_columns = set (map fst (engineered p))"
    by (simp only: columns_engineered)
  then have "set explicit_columns = fst ` set (engineered p)"
    by (simp only: set_map)
  then show ?thesis
    by (simp only: map_of_eq_None_iff)
qed

lemma str_upper_single:
  "str_upper unicode_upper [c] =
     (if (of_char c :: nat) < 128 then [ascii_upper_char c] else unicode_upper c)"
  by (simp add: str_upper_def)

text \<open>
  The group of a code is one character, or what the Unicode tables give: it differs from
  a name of several characters that the tables never give.
\<close>

lemma icd_group_neq:
  assumes "\<forall>c. unicode_upper c \<noteq> k" and "length k \<noteq> 1"
  shows "icd_group_of unicode_upper code \<noteq> Inr k"
proof (cases code)
  case Nil
  then show ?thesis
    by (simp add: icd_group_of_def)
next
  case (Cons c cs)
  show ?thesis
  proof (cases "(of_char c :: nat) < 128")
    case True
    with Cons assms(2) show ?thesis
      by (auto simp: icd_group_of_def str_upper_single)
  next
    case False
    with Cons assms(1) show ?thesis
      by (simp add: icd_group_of_def str_upper_single)
  qed
qed

lemma feature_prep_eq:
  assumes "diagnosis_code p = c # cs"
  shows "feature_prep unicode_upper p cols =
           Inr (map (\<lambda>k. (k, if k = str_upper unicode_upper [c] then PyInt 1
                              else case map_of (engineered p) k of
                                     Some v \<Rightarrow> v | None \<Rightarrow> PyInt 0)) cols)"
proof -
  define g where "g = str_upper unicode_upper [c]"
  define df2 where "df2 = fill_missing (engineered p) cols"
  define df3 where "df3 = (if g \<in> set cols then set_col df2 g (PyInt 1) else df2)"
  have val: "map_of df3 k =
               Some (if k = g then PyInt 1
                     else case map_of (engineered p) k of Some v \<Rightarrow> v | None \<Rightarrow> PyInt 0)"
    if "k \<in> set cols" for k
    using that
    by (cases "k = g") (auto simp: df3_def df2_def map_of_set_col map_of_fill_missing split: option.splits)
  have "feature_prep unicode_upper p cols = select_cols df3 cols"
    by (simp add: feature_prep_def icd_group_of_def assms df3_def df2_def g_def)
  also have "\<dots> = Inr (map (\<lambda>k. (k, the (map_of df3 k))) cols)"
    by (rule select_cols_defined) (simp add: val)
  also have "map (\<lambda>k. (k, the (map_of df3 k))) cols =
             map (\<lambda>k. (k, if k = g then PyInt 1
                           else case map_of (engineered p) k of
                                  Some v \<Rightarrow> v | None \<Rightarrow> PyInt 0)) cols"
    by (rule map_cong) (simp_all add: val)
  finally show ?thesis
    by (simp add: g_def)
qed

lemma feature_prep_empty:
  "diagnosis_code p = [] \<Longrightarrow> feature_prep unicode_upper p cols = Inl IndexError"
  by (simp add: feature_prep_def icd_group_of_def)

lemma explicit_value:
  assumes "feature_prep unicode_upper p cols = Inr fv" and "(k, v) \<in> set fv"
    and "k \<in> set explicit_columns"
    and "icd_group_of unicode_upper (diagnosis_code p) \<noteq> Inr k"
  shows "map_of (engineered p) k = Some v"
proof (cases "diagnosis_code p")
  case Nil
  with assms(1) show ?thesis
    by (simp add: feature_prep_empty)
next
  case (Cons c cs)
  from assms(4) Cons have "k \<noteq> str_upper unicode_upper [c]"
    by (auto simp: icd_group_of_def)
  moreover from assms(3) obtain w where "map_of (engineered p) k = Some w"
    using engineered_None_iff [of p k] by auto
  ultimately show ?thesis
    using assms(1,2) by (auto simp: feature_prep_eq [OF Cons])
qed

lemma explicit_present:
  assumes "diagnosis_code p \<noteq> []" and "k \<in> set cols" and "map_of (engineered p) k = Some v"
    and "icd_group_of unicode_upper (diagnosis_code p) \<noteq> Inr k"
  shows "\<exists>fv. feature_prep unicode_upper p cols = Inr fv \<and> (k, v) \<in> set fv"
proof -
  from assms(1) obtain c cs where code: "diagnosis_code p = c # cs"
    by (cases "diagnosis_code p") auto
  from assms(4) code have "k \<noteq> str_upper unicode_upper [c]"
    by (auto simp: icd_group_of_def)
  with assms(2,3) show ?thesis
    by (force simp: feature_prep_eq [OF code])
qed

section \<open>Claims about the feature builder\<close>

text \<open>
  C1. Whatever the profile and the schema, a feature vector the builder produces has
  exactly the columns of the schema, in the order of the schema (a repeated name is
  repeated): nothing is added and nothing is missing. The builder does produce a vector
  whenever the diagnosis code is not empty.
\<close>

theorem feature_vector_columns:
  "(diagnosis_code p \<noteq> [] \<longrightarrow> (\<exists>fv. feature_prep unicode_upper p cols = Inr fv)) \<and>
   (\<forall>fv. feature_prep unicode_upper p cols = Inr fv \<longrightarrow> map fst fv = cols)"
proof (cases "diagnosis_code p")
  case Nil
  then show ?thesis
    by (simp add: feature_prep_empty)
next
  case (Cons c cs)
  then show ?thesis
    by (auto simp: feature_prep_eq [OF Cons] comp_def)
qed

theorem feature_vector_columns_witness:
  "\<forall>unicode_upper.
     \<exists>fv. feature_prep unicode_upper scenario_profile [''I'', ''age'', ''X'', ''age''] = Inr fv \<and>
          map fst fv = [''I'', ''age'', ''X'', ''age'']"
proof
  fix unicode_upper :: "char \<Rightarrow> string"
  show "\<exists>fv. feature_prep unicode_upper scenario_profile [''I'', ''age'', ''X'', ''age''] = Inr fv \<and>
          map fst fv = [''I'', ''age'', ''X'', ''age'']"
    using feature_vector_columns [of scenario_profile unicode_upper "[''I'', ''age'', ''X'', ''age'']"]
    by (auto simp: scenario_profile_def)
qed

text \<open>
  C2. The claim says that feature building completes for every diagnosis code, the empty
  string included. On the empty string line 108 indexes position 0 and the run ends with
  \<^verbatim>\<open>IndexError\<close>, whatever the schema is.
\<close>

theorem empty_diagnosis_code_raises:
  "feature_prep unicode_upper (scenario_profile\<lparr>diagnosis_code := ''''\<rparr>) cols = Inl IndexError"
  by (simp add: feature_prep_empty)

text \<open>
  The rest of that claim holds: with a first character, alphabetic or not, the builder
  completes, and a group that is no column of the schema leaves the vector untouched.
\<close>

lemma nonempty_diagnosis_code_completes:
  assumes "diagnosis_code p = c # cs"
  shows "\<exists>fv. feature_prep unicode_upper p cols = Inr fv \<and>
           (str_upper unicode_upper [c] \<notin> set cols \<longrightarrow>
              fv = map (\<lambda>k. (k, case map_of (engineered p) k of
                                    Some v \<Rightarrow> v | None \<Rightarrow> PyInt 0)) cols)"
  by (auto simp: feature_prep_eq [OF assms])

text \<open>
  C4. In every feature vector produced, the cell of \<^verbatim>\<open>gender_M\<close> is 1 exactly when the
  gender is \<^verbatim>\<open>Male\<close> and 0 exactly when it is anything else; and the column is there
  whenever the schema names it and a vector is built. Of the Unicode tables this uses
  that no character is upper-cased to the string \<^verbatim>\<open>gender_M\<close>.
\<close>

theorem gender_M_encoding:
  assumes "\<forall>c. unicode_upper c \<noteq> ''gender_M''"
  shows "(\<forall>fv v. feature_prep unicode_upper p cols = Inr fv \<and> (''gender_M'', v) \<in> set fv \<longrightarrow>
            (v = PyInt 1 \<longleftrightarrow> gender p = ''Male'') \<and> (v = PyInt 0 \<longleftrightarrow> gender p \<noteq> ''Male'')) \<and>
         (diagnosis_code p \<noteq> [] \<and> ''gender_M'' \<in> set cols \<longrightarrow>
            (\<exists>fv. feature_prep unicode_upper p cols = Inr fv \<and>
                  (''gender_M'', PyInt (if gender p = ''Male'' then 1 else 0)) \<in> set fv))"
proof -
  have e: "map_of (engineered p) ''gender_M'' = Some (PyInt (if gender p = ''Male'' then 1 else 0))"
    by (simp add: engineered_list)
  have x: "''gender_M'' \<in> set explicit_columns"
    by (simp add: explicit_columns_def)
  have n: "icd_group_of unicode_upper (diagnosis_code p) \<noteq> Inr ''gender_M''"
    by (rule icd_group_neq [OF assms]) simp
  have gm: "(v = PyInt 1 \<longleftrightarrow> gender p = ''Male'') \<and> (v = PyInt 0 \<longleftrightarrow> gender p \<noteq> ''Male'')"
    if "feature_prep unicode_upper p cols = Inr fv" and "(''gender_M'', v) \<in> set fv" for fv v
  proof -
    have "v = PyInt (if gender p = ''Male'' then 1 else 0)"
      using explicit_value [OF that x n] e by simp
    then show ?thesis
      by (cases "gender p = ''Male''") simp_all
  qed
  have present: "\<exists>fv. feature_prep unicode_upper p cols = Inr fv \<and>
            (''gender_M'', PyInt (if gender p = ''Male'' then 1 else 0)) \<in> set fv"
    if "diagnosis_code p \<noteq> []" and "''gender_M'' \<in> set cols"
    using explicit_present [OF that e n] .
  from gm present show ?thesis
    by blast
qed

theorem gender_M_encoding_witness:
  "\<exists>fv. feature_prep (\<lambda>c. [c]) scenario_profile [''age'', ''gender_M''] = Inr fv \<and>
        (''gender_M'', PyInt 1) \<in> set fv \<and> (''gender_M'', PyInt 0) \<notin> set fv"
proof -
  have h: "\<forall>c. [c] \<noteq> ''gender_M''"
    by simp
  from gender_M_encoding [of "\<lambda>c. [c]" scenario_profile "[''age'', ''gender_M'']", OF h]
  show ?thesis
    by (auto simp: scenario_profile_def)
qed

text \<open>
  C5. For a length of stay from 1 to 60 and a comorbidity count from 0 to 15, the cell of
  \<^verbatim>\<open>los_x_comorb\<close> in every feature vector produced is exactly the integer product of
  the two; and the column is there whenever the schema names it and a vector is built. Of
  the Unicode tables this uses that no character is upper-cased to the string
  \<^verbatim>\<open>los_x_comorb\<close>.
\<close>

theorem los_x_comorb_product:
  assumes "1 \<le> los p" and "los p \<le> 60"
    and "0 \<le> comorbidity_count p" and "comorbidity_count p \<le> 15"
    and "\<forall>c. unicode_upper c \<noteq> ''los_x_comorb''"
  shows "(\<forall>fv v. feature_prep unicode_upper p cols = Inr fv \<and> (''los_x_comorb'', v) \<in> set fv \<longrightarrow>
            v = PyInt (los p * comorbidity_count p)) \<and>
         (diagnosis_code p \<noteq> [] \<and> ''los_x_comorb'' \<in> set cols \<longrightarrow>
            (\<exists>fv. feature_prep unicode_upper p cols = Inr fv \<and>
                  (''los_x_comorb'', PyInt (los p * comorbidity_count p)) \<in> set fv))"
proof -
  have e: "map_of (engineered p) ''los_x_comorb'' = Some (PyInt (los p * comorbidity_count p))"
    by (simp add: engineered_list)
  have x: "''los_x_comorb'' \<in> set explicit_columns"
    by (simp add: explicit_columns_def)
  have n: "icd_group_of unicode_upper (diagnosis_code p) \<noteq> Inr ''los_x_comorb''"
    by (rule icd_group_neq [OF assms(5)]) simp
  have "v = PyInt (los p * comorbidity_count p)"
    if "feature_prep unicode_upper p cols = Inr fv" and "(''los_x_comorb'', v) \<in> set fv" for fv v
    using explicit_value [OF that x n] e by simp
  moreover have "\<exists>fv. feature_prep unicode_upper p cols = Inr fv \<and>
                   (''los_x_comorb'', PyInt (los p * comorbidity_count p)) \<in> set fv"
    if "diagnosis_code p \<noteq> []" and "''los_x_comorb'' \<in> set cols"
    using explicit_present [OF that e n] .
  ultimately show ?thesis
    by blast
qed

theorem los_x_comorb_product_witness:
  "\<exists>fv. feature_prep (\<lambda>c. [c]) scenario_profile [''los_x_comorb'', ''age''] = Inr fv \<and>
        (''los_x_comorb'', PyInt 14) \<in> set fv \<and>
        (\<forall>v. (''los_x_comorb'', v) \<in> set fv \<longrightarrow> v = PyInt (7 * 2))"
proof -
  have h: "\<forall>c. [c] \<noteq> ''los_x_comorb''"
    by simp
  from los_x_comorb_product [of scenario_profile "\<lambda>c. [c]" "[''los_x_comorb'', ''age'']", OF _ _ _ _ h]
  show ?thesis
    by (auto simp: scenario_profile_def)
qed

text \<open>
  C6. The four flags are 0 or 1 with these cutoffs: \<^verbatim>\<open>glucose_flag\<close> is 1 exactly when
  glucose is above 200 (so 200 gives 0 and 250 gives 1), \<^verbatim>\<open>creatinine_flag\<close> exactly
  when creatinine is above 2, \<^verbatim>\<open>hb_flag\<close> exactly when hemoglobin is below 10, and
  \<^verbatim>\<open>polypharmacy_flag\<close> exactly when there are 15 medications or more. This holds for
  all inputs, the valid ones among them. Of the Unicode tables this uses that no character
  is upper-cased to the name of one of the four flags.
\<close>

theorem threshold_flags:
  assumes "\<forall>c. unicode_upper c \<noteq> ''glucose_flag'' \<and> unicode_upper c \<noteq> ''creatinine_flag'' \<and>
               unicode_upper c \<noteq> ''hb_flag'' \<and> unicode_upper c \<noteq> ''polypharmacy_flag''"
  shows "(\<forall>fv v. feature_prep unicode_upper p cols = Inr fv \<longrightarrow>
      ((''glucose_flag'', v) \<in> set fv \<longrightarrow> v = PyInt (if avg_glucose p > 200 then 1 else 0)) \<and>
      ((''creatinine_flag'', v) \<in> set fv \<longrightarrow> v = PyInt (if avg_creatinine p > 2 then 1 else 0)) \<and>
      ((''hb_flag'', v) \<in> set fv \<longrightarrow> v = PyInt (if avg_hemoglobin p < 10 then 1 else 0)) \<and>
      ((''polypharmacy_flag'', v) \<in> set fv \<longrightarrow>
          v = PyInt (if num_medications p \<ge> 15 then 1 else 0))) \<and>
   (diagnosis_code p \<noteq> [] \<longrightarrow>
      (\<exists>fv. feature_prep unicode_upper p cols = Inr fv \<and>
         (''glucose_flag'' \<in> set cols \<longrightarrow>
            (''glucose_flag'', PyInt (if avg_glucose p > 200 then 1 else 0)) \<in> set fv) \<and>
         (''creatinine_flag'' \<in> set cols \<longrightarrow>
            (''creatinine_flag'', PyInt (if avg_creatinine p > 2 then 1 else 0)) \<in> set fv) \<and>
         (''hb_flag'' \<in> set cols \<longrightarrow>
            (''hb_flag'', PyInt (if avg_hemoglobin p < 10 then 1 else 0)) \<in> set fv) \<and>
         (''polypharmacy_flag'' \<in> set cols \<longrightarrow>
            (''polypharmacy_flag'', PyInt (if num_medications p \<ge> 15 then 1 else 0)) \<in> set fv)))"
proof -
  have e: "map_of (engineered p) ''glucose_flag'' = Some (PyInt (if avg_glucose p > 200 then 1 else 0))"
    "map_of (engineered p) ''creatinine_flag'' = Some (PyInt (if avg_creatinine p > 2 then 1 else 0))"
    "map_of (engineered p) ''hb_flag'' = Some (PyInt (if avg_hemoglobin p < 10 then 1 else 0))"
    "map_of (engineered p) ''polypharmacy_flag'' =
       Some (PyInt (if num_medications p \<ge> 15 then 1 else 0))"
    by (simp_all add: engineered_list)
  have x: "''glucose_flag'' \<in> set explicit_columns" "''creatinine_flag'' \<in> set explicit_columns"
    "''hb_flag'' \<in> set explicit_columns" "''polypharmacy_flag'' \<in> set explicit_columns"
    by (simp_all add: explicit_columns_def)
  have n: "icd_group_of unicode_upper (diagnosis_code p) \<noteq> Inr ''glucose_flag''"
    "icd_group_of unicode_upper (diagnosis_code p) \<noteq> Inr ''creatinine_flag''"
    "icd_group_of unicode_upper (diagnosis_code p) \<noteq> Inr ''hb_flag''"
    "icd_group_of unicode_upper (diagnosis_code p) \<noteq> Inr ''polypharmacy_flag''"
    using assms by (simp_all add: icd_group_neq)
  have g: "v = PyInt (if avg_glucose p > 200 then 1 else 0)"
    if "feature_prep unicode_upper p cols = Inr fv" and "(''glucose_flag'', v) \<in> set fv" for fv v
    using explicit_value [OF that x(1) n(1)] e(1) by simp
  have c: "v = PyInt (if avg_creatinine p > 2 then 1 else 0)"
    if "feature_prep unicode_upper p cols = Inr fv" and "(''creatinine_flag'', v) \<in> set fv" for fv v
    using explicit_value [OF that x(2) n(2)] e(2) by simp
  have h: "v = PyInt (if avg_hemoglobin p < 10 then 1 else 0)"
    if "feature_prep unicode_upper p cols = Inr fv" and "(''hb_flag'', v) \<in> set fv" for fv v
    using explicit_value [OF that x(3) n(3)] e(3) by simp
  have m: "v = PyInt (if num_medications p \<ge> 15 then 1 else 0)"
    if "feature_prep unicode_upper p cols = Inr fv" and "(''polypharmacy_flag'', v) \<in> set fv" for fv v
    using explicit_value [OF that x(4) n(4)] e(4) by simp
  have pres: "\<exists>fv. feature_prep unicode_upper p cols = Inr fv \<and>
         (''glucose_flag'' \<in> set cols \<longrightarrow>
            (''glucose_flag'', PyInt (if avg_glucose p > 200 then 1 else 0)) \<in> set fv) \<and>
         (''creatinine_flag'' \<in> set cols \<longrightarrow>
            (''creatinine_flag'', PyInt (if avg_creatinine p > 2 then 1 else 0)) \<in> set fv) \<and>
         (''hb_flag'' \<in> set cols \<longrightarrow>
            (''hb_flag'', PyInt (if avg_hemoglobin p < 10 then 1 else 0)) \<in> set fv) \<and>
         (''polypharmacy_flag'' \<in> set cols \<longrightarrow>
            (''polypharmacy_flag'', PyInt (if num_medications p \<ge> 15 then 1 else 0)) \<in> set fv)"
    if ne: "diagnosis_code p \<noteq> []"
  proof -
    from ne obtain c cs where "diagnosis_code p = c # cs"
      by (cases "diagnosis_code p") auto
    then obtain fv where fv: "feature_prep unicode_upper p cols = Inr fv"
      by (auto simp: feature_prep_eq)
    show ?thesis
      using explicit_present [OF ne _ e(1) n(1), of cols] explicit_present [OF ne _ e(2) n(2), of cols]
        explicit_present [OF ne _ e(3) n(3), of cols] explicit_present [OF ne _ e(4) n(4), of cols] fv
      by (intro exI [of _ fv]) auto
  qed
  from g c h m pres show ?thesis
    by blast
qed

theorem threshold_flags_witness:
  "(\<exists>fv. feature_prep (\<lambda>c. [c]) (scenario_profile\<lparr>avg_glucose := 200, avg_creatinine := 2,
            avg_hemoglobin := 10, num_medications := 15\<rparr>)
          [''glucose_flag'', ''creatinine_flag'', ''hb_flag'', ''polypharmacy_flag''] = Inr fv \<and>
         (''glucose_flag'', PyInt 0) \<in> set fv \<and> (''creatinine_flag'', PyInt 0) \<in> set fv \<and>
         (''hb_flag'', PyInt 0) \<in> set fv \<and> (''polypharmacy_flag'', PyInt 1) \<in> set fv) \<and>
   (\<exists>fv. feature_prep (\<lambda>c. [c]) (scenario_profile\<lparr>avg_glucose := 250, avg_creatinine := 5 / 2,
            avg_hemoglobin := 19 / 2, num_medications := 14\<rparr>)
          [''glucose_flag'', ''creatinine_flag'', ''hb_flag'', ''polypharmacy_flag''] = Inr fv \<and>
         (''glucose_flag'', PyInt 1) \<in> set fv \<and> (''creatinine_flag'', PyInt 1) \<in> set fv \<and>
         (''hb_flag'', PyInt 1) \<in> set fv \<and> (''polypharmacy_flag'', PyInt 0) \<in> set fv)"
proof -
  have h: "\<forall>c. [c] \<noteq> ''glucose_flag'' \<and> [c] \<noteq> ''creatinine_flag'' \<and>
               [c] \<noteq> ''hb_flag'' \<and> [c] \<noteq> ''polypharmacy_flag''"
    by simp
  from threshold_flags [of "\<lambda>c. [c]" "scenario_profile\<lparr>avg_glucose := 200, avg_creatinine := 2,
            avg_hemoglobin := 10, num_medications := 15\<rparr>"
          "[''glucose_flag'', ''creatinine_flag'', ''hb_flag'', ''polypharmacy_flag'']", OF h]
    threshold_flags [of "\<lambda>c. [c]" "scenario_profile\<lparr>avg_glucose := 250, avg_creatinine := 5 / 2,
            avg_hemoglobin := 19 / 2, num_medications := 14\<rparr>"
          "[''glucose_flag'', ''creatinine_flag'', ''hb_flag'', ''polypharmacy_flag'']", OF h]
  show ?thesis
    by (simp add: scenario_profile_def)
qed

text \<open>
  C7. Whatever the schema and the Unicode tables, a column of the schema that is none of
  the fourteen columns the builder produces by itself and is not the diagnosis group of
  the code (the upper-cased first character, one character or several) has the cell 0 in
  every feature vector produced; and it is there whenever a vector is built.
\<close>

theorem unproduced_columns_default_zero:
  "(\<forall>fv v. feature_prep unicode_upper p cols = Inr fv \<and> (k, v) \<in> set fv \<and>
          k \<notin> set explicit_columns \<and>
          icd_group_of unicode_upper (diagnosis_code p) \<noteq> Inr k \<longrightarrow> v = PyInt 0) \<and>
   (diagnosis_code p \<noteq> [] \<and> k \<in> set cols \<and> k \<notin> set explicit_columns \<and>
    icd_group_of unicode_upper (diagnosis_code p) \<noteq> Inr k \<longrightarrow>
      (\<exists>fv. feature_prep unicode_upper p cols = Inr fv \<and> (k, PyInt 0) \<in> set fv))"
proof (cases "diagnosis_code p")
  case Nil
  then show ?thesis
    by (simp add: feature_prep_empty)
next
  case (Cons c cs)
  have none: "map_of (engineered p) k = None" if "k \<notin> set explicit_columns"
    using that by (simp add: engineered_None_iff)
  have g: "k \<noteq> str_upper unicode_upper [c]"
    if "icd_group_of unicode_upper (diagnosis_code p) \<noteq> Inr k"
    using that Cons by (auto simp: icd_group_of_def)
  have "v = PyInt 0"
    if "feature_prep unicode_upper p cols = Inr fv" and "(k, v) \<in> set fv"
      and "k \<notin> set explicit_columns"
      and "icd_group_of unicode_upper (diagnosis_code p) \<noteq> Inr k" for fv v
    using that(1,2) none [OF that(3)] g [OF that(4)]
    by (auto simp: feature_prep_eq [OF Cons])
  moreover have "\<exists>fv. feature_prep unicode_upper p cols = Inr fv \<and> (k, PyInt 0) \<in> set fv"
    if "k \<in> set cols" and "k \<notin> set explicit_columns"
      and "icd_group_of unicode_upper (diagnosis_code p) \<noteq> Inr k"
    using that(1) none [OF that(2)] g [OF that(3)]
    by (force simp: feature_prep_eq [OF Cons])
  ultimately show ?thesis
    by blast
qed

text \<open>
  The witness takes a code whose first character is beyond ASCII (the character 223, the
  sharp s of Latin-1) and tables that upper-case it to \<^verbatim>\<open>SS\<close>: the column \<^verbatim>\<open>SS\<close> is
  the group and is set to 1, the columns \<^verbatim>\<open>S\<close> and \<^verbatim>\<open>charlson\<close> are at 0.
\<close>

theorem unproduced_columns_default_zero_witness:
  "\<exists>fv. feature_prep (\<lambda>c. if c = CHR 0xDF then ''SS'' else [c])
          (scenario_profile\<lparr>diagnosis_code := [CHR 0xDF, CHR ''1'']\<rparr>)
          [''SS'', ''S'', ''age'', ''charlson''] = Inr fv \<and>
        (''SS'', PyInt 1) \<in> set fv \<and>
        (''S'', PyInt 0) \<in> set fv \<and> (\<forall>v. (''S'', v) \<in> set fv \<longrightarrow> v = PyInt 0) \<and>
        (''charlson'', PyInt 0) \<in> set fv"
proof -
  let ?up = "\<lambda>c. if c = CHR 0xDF then ''SS'' else [c]"
  let ?p = "scenario_profile\<lparr>diagnosis_code := [CHR 0xDF, CHR ''1'']\<rparr>"
  let ?cols = "[''SS'', ''S'', ''age'', ''charlson'']"
  have grp: "icd_group_of ?up [CHR 0xDF, CHR ''1''] = Inr ''SS''"
    by (simp add: icd_group_of_def str_upper_def)
  have prem: "diagnosis_code ?p \<noteq> [] \<and> ''S'' \<in> set ?cols \<and> ''charlson'' \<in> set ?cols \<and>
              ''S'' \<notin> set explicit_columns \<and> ''charlson'' \<notin> set explicit_columns \<and>
              icd_group_of ?up (diagnosis_code ?p) \<noteq> Inr ''S'' \<and>
              icd_group_of ?up (diagnosis_code ?p) \<noteq> Inr ''charlson''"
    by (simp add: grp explicit_columns_def)
  have code: "diagnosis_code ?p = CHR 0xDF # [CHR ''1'']"
    by simp
  obtain fv where fv: "feature_prep ?up ?p ?cols = Inr fv"
    by (simp add: feature_prep_eq [OF code])
  have one: "(''SS'', PyInt 1) \<in> set fv"
    using fv by (auto simp: feature_prep_eq [OF code] str_upper_def)
  from unproduced_columns_default_zero [of ?up ?p ?cols "''S''"] prem fv
  have s': "\<forall>v. (''S'', v) \<in> set fv \<longrightarrow> v = PyInt 0"
    by blast
  from unproduced_columns_default_zero [of ?up ?p ?cols "''S''"] prem
  obtain fv1 where "feature_prep ?up ?p ?cols = Inr fv1" and "(''S'', PyInt 0) \<in> set fv1"
    by blast
  with fv have s: "(''S'', PyInt 0) \<in> set fv"
    by simp
  from unproduced_columns_default_zero [of ?up ?p ?cols "''charlson''"] prem
  obtain fv2 where "feature_prep ?up ?p ?cols = Inr fv2" and "(''charlson'', PyInt 0) \<in> set fv2"
    by blast
  with fv have "(''charlson'', PyInt 0) \<in> set fv"
    by simp
  with fv one s s' show ?thesis
    by blast
qed

text \<open>
  C9. For the scenario (age 65, Male, code I50.9, stay 7, previous admissions 2,
  comorbidities 2, medications 10, creatinine 1.2, hemoglobin 12.0, glucose 110) and every
  schema, the builder returns the vector that has, in the order of the schema, the four
  flags at 0, \<^verbatim>\<open>los_x_comorb\<close> at 14, \<^verbatim>\<open>gender_M\<close> at 1, the diagnosis group column
  \<^verbatim>\<open>I\<close> at 1 wherever the schema names it, the direct fields at their values and
  every other column at 0. The first character of the code is ASCII, so this holds
  whatever the Unicode tables are.
\<close>

theorem scenario_features:
  "feature_prep unicode_upper scenario_profile cols =
     Inr (map (\<lambda>k. (k,
            if k = ''I'' then PyInt 1
            else if k = ''glucose_flag'' then PyInt 0
            else if k = ''creatinine_flag'' then PyInt 0
            else if k = ''hb_flag'' then PyInt 0
            else if k = ''polypharmacy_flag'' then PyInt 0
            else if k = ''los_x_comorb'' then PyInt 14
            else if k = ''gender_M'' then PyInt 1
            else if k = ''age'' then PyInt 65
            else if k = ''length_of_stay'' then PyInt 7
            else if k = ''previous_admissions'' then PyInt 2
            else if k = ''comorbidity_count'' then PyInt 2
            else if k = ''num_medications'' then PyInt 10
            else if k = ''avg_creatinine'' then PyFloat (5404319552844595 / 4503599627370496)
            else if k = ''avg_hemoglobin'' then PyFloat 12
            else if k = ''avg_glucose'' then PyFloat 110
            else PyInt 0)) cols)"
proof -
  have code: "diagnosis_code scenario_profile = CHR ''I'' # ''50.9''"
    by (simp add: scenario_profile_def)
  have up: "str_upper unicode_upper [CHR ''I''] = ''I''"
    by (simp add: str_upper_def ascii_upper_char_def)
  show ?thesis
    unfolding feature_prep_eq [OF code] up engineered_list
    by (simp add: scenario_profile_def)
qed

section \<open>Report identifier: shape and the hashed text\<close>



























section \<open>Claims about the classifier and the report identifier\<close>

text \<open>
  C3. The level is a partition of all probabilities, those of the unit interval among
  them: it is \<^verbatim>\<open>HIGH\<close> exactly from \<^verbatim>\<open>0.50\<close> up, \<^verbatim>\<open>MODERATE\<close> exactly from
  \<^verbatim>\<open>0.30\<close> up to but excluding \<^verbatim>\<open>0.50\<close>, and \<^verbatim>\<open>LOW\<close> exactly below \<^verbatim>\<open>0.30\<close>,
  the two thresholds being the floats the literals denote and lying strictly inside the
  unit interval. A probability of 0.5 is \<^verbatim>\<open>HIGH\<close>; 0.3 (the float and the exact
  decimal alike) and 0.4999 are \<^verbatim>\<open>MODERATE\<close>; 0.2999 is \<^verbatim>\<open>LOW\<close>.
\<close>

theorem tier_partition:
  "(fst (classify prob) = ''HIGH'' \<longleftrightarrow> prob \<ge> float_0_50) \<and>
   (fst (classify prob) = ''MODERATE'' \<longleftrightarrow> float_0_30 \<le> prob \<and> prob < float_0_50) \<and>
   (fst (classify prob) = ''LOW'' \<longleftrightarrow> prob < float_0_30) \<and>
   0 < float_0_30 \<and> float_0_30 < float_0_50 \<and> float_0_50 < 1 \<and>
   fst (classify (1 / 2)) = ''HIGH'' \<and>
   fst (classify float_0_30) = ''MODERATE'' \<and>
   fst (classify (3 / 10)) = ''MODERATE'' \<and>
   fst (classify (4999 / 10000)) = ''MODERATE'' \<and>
   fst (classify (2999 / 10000)) = ''LOW''"
  by (simp add: classify_def float_0_50_def float_0_30_def)



end
